theory Spec2Isabelle
  imports
    Complex_Main
    "HOL-Library.Multiset"
    "HOL-Library.Sublist"
    "HOL-Library.Char_ord"
    "HOL-Library.List_Lexorder"
begin

section \<open>The program: tables, the file store and the branches of the menu\<close>

text \<open>
  \<^verbatim>\<open>placement_tracker_app.py\<close> keeps its data in a pandas DataFrame that is read from
  \<^verbatim>\<open>placements.csv\<close> at the start of every run of \<^verbatim>\<open>main\<close> and written back
  after a change. The model keeps what the program sees of a DataFrame: the column labels in
  their order, and the rows, each a list of cells aligned with the labels. A cell is a text,
  a number, or the missing value (pandas' NaN). Numbers are reals: the program only compares
  and orders them, and the comparison of two floats that are not NaN is the comparison of the
  reals they stand for. Texts are lists of 8-bit characters. Everything pandas raises is a
  value of type \<open>error\<close>. The widgets of the page are the arguments of the functions below;
  the Visualize branch only draws a chart and is not modelled.
\<close>

datatype cell = Str string | Num real | NaN

datatype error = KeyError | TypeError | AttributeError | PatternError | FileNotFoundError

record dataframe =
  columns :: "string list"
  rows :: "cell list list"

subsection \<open>Column access and element-wise operations\<close>

fun is_text :: "cell \<Rightarrow> bool" where
  "is_text (Str s) = True"
| "is_text c = False"

fun is_number :: "cell \<Rightarrow> bool" where
  "is_number (Num v) = True"
| "is_number c = False"

fun index_of :: "string \<Rightarrow> string list \<Rightarrow> nat option" where
  "index_of c [] = None"
| "index_of c (x # xs) = (if x = c then Some 0 else map_option Suc (index_of c xs))"

text \<open>\<^verbatim>\<open>df[c]\<close>: the column labelled \<open>c\<close>, or KeyError when no column has that label.\<close>

definition getitem :: "dataframe \<Rightarrow> string \<Rightarrow> error + cell list" where
  "getitem df c =
     (case index_of c (columns df) of
        None \<Rightarrow> Inl KeyError
      | Some i \<Rightarrow> Inr (map (\<lambda>r. r ! i) (rows df)))"

text \<open>Sequencing: the first error ends the computation, as a raised exception does.\<close>

definition and_then :: "error + 'a \<Rightarrow> ('a \<Rightarrow> error + 'b) \<Rightarrow> error + 'b" where
  "and_then m f = (case m of Inl e \<Rightarrow> Inl e | Inr v \<Rightarrow> f v)"

text \<open>An element-wise operation fails as a whole with the first error of an element.\<close>

fun collect :: "(error + 'a) list \<Rightarrow> error + 'a list" where
  "collect [] = Inr []"
| "collect (x # xs) =
     (case x of
        Inl e \<Rightarrow> Inl e
      | Inr v \<Rightarrow> (case collect xs of Inl e \<Rightarrow> Inl e | Inr vs \<Rightarrow> Inr (v # vs)))"

text \<open>
  \<^verbatim>\<open>series <= x\<close> and \<^verbatim>\<open>series >= x\<close> against a number: a missing cell compares
  False, a text cell cannot be compared with a number (TypeError).
\<close>

fun cell_le :: "cell \<Rightarrow> real \<Rightarrow> error + bool" where
  "cell_le (Num v) x = Inr (v \<le> x)"
| "cell_le NaN x = Inr False"
| "cell_le (Str s) x = Inl TypeError"

fun cell_ge :: "cell \<Rightarrow> real \<Rightarrow> error + bool" where
  "cell_ge (Num v) x = Inr (v \<ge> x)"
| "cell_ge NaN x = Inr False"
| "cell_ge (Str s) x = Inl TypeError"

definition series_le :: "cell list \<Rightarrow> real \<Rightarrow> error + bool list" where
  "series_le s x = collect (map (\<lambda>c. cell_le c x) s)"

definition series_ge :: "cell list \<Rightarrow> real \<Rightarrow> error + bool list" where
  "series_ge s x = collect (map (\<lambda>c. cell_ge c x) s)"

text \<open>\<^verbatim>\<open>a & b\<close> and \<^verbatim>\<open>a | b\<close> on two boolean columns of one frame.\<close>

definition series_and :: "bool list \<Rightarrow> bool list \<Rightarrow> bool list" where
  "series_and a b = map (\<lambda>(x, y). x \<and> y) (zip a b)"

definition series_or :: "bool list \<Rightarrow> bool list \<Rightarrow> bool list" where
  "series_or a b = map (\<lambda>(x, y). x \<or> y) (zip a b)"

text \<open>\<^verbatim>\<open>df[mask]\<close>: the rows whose mask entry is True, in their order; the columns stay.\<close>

definition select_rows :: "dataframe \<Rightarrow> bool list \<Rightarrow> dataframe" where
  "select_rows df msk = df\<lparr>rows := map fst (filter snd (zip (rows df) msk))\<rparr>"

text \<open>\<^verbatim>\<open>df.empty\<close>: one of the two axes has length zero.\<close>

definition empty_df :: "dataframe \<Rightarrow> bool" where
  "empty_df df \<longleftrightarrow> columns df = [] \<or> rows df = []"

subsection \<open>The file store: \<^verbatim>\<open>init_csv\<close>, \<^verbatim>\<open>load_data\<close>, \<^verbatim>\<open>save_data\<close>\<close>

text \<open>
  The files the program touches, by name. A file holds the table that
  \<^verbatim>\<open>to_csv(..., index=False)\<close> wrote into it, header and rows.

  Reading the file back is \<^verbatim>\<open>pd.read_csv\<close> called with its defaults. One thing it does is
  modelled: a missing value is written as an empty field, as an empty text is, and the reader
  takes an empty field and the spellings below for a missing value, in every column.
  Everything else the reader does with a cell is the CSV library's business and is left open:
  how a number is spelled in the file and parsed again, whether a text that spells a number
  is read as that number, what the other cells of the column make of it. It is the parameter
  \<open>reader\<close> of the model: given the table that was written, a column label and a cell under
  that label that is not read as a missing value, it gives the cell that is read. What is
  proved of \<open>load_data\<close> is proved for every reader.
\<close>

definition na_values :: "string list" where
  "na_values =
     ['''', ''#N/A'', ''#N/A N/A'', ''#NA'', ''-1.#IND'', ''-1.#QNAN'', ''-NaN'', ''-nan'',
      ''1.#IND'', ''1.#QNAN'', ''<NA>'', ''N/A'', ''NA'', ''NULL'', ''NaN'', ''None'', ''n/a'',
      ''nan'', ''null'']"

type_synonym csv_reader = "dataframe \<Rightarrow> string \<Rightarrow> cell \<Rightarrow> cell"

fun read_cell :: "csv_reader \<Rightarrow> dataframe \<Rightarrow> string \<Rightarrow> cell \<Rightarrow> cell" where
  "read_cell reader df c NaN = NaN"
| "read_cell reader df c (Str s) =
     (if s \<in> set na_values then NaN else reader df c (Str s))"
| "read_cell reader df c (Num v) = reader df c (Num v)"

definition read_csv :: "csv_reader \<Rightarrow> dataframe \<Rightarrow> dataframe" where
  "read_csv reader df =
     df\<lparr>rows := map (\<lambda>r. map2 (read_cell reader df) (columns df) r) (rows df)\<rparr>"

type_synonym files = "string \<rightharpoonup> dataframe"

definition CSV_FILE :: string where
  "CSV_FILE = ''placements.csv''"

text \<open>
  The column list of \<^verbatim>\<open>init_csv\<close> as the source has it. Between
  \<^verbatim>\<open>"Backlogs_Allowed"\<close> and \<^verbatim>\<open>"Eligibility_10th"\<close> the source has no comma, and
  Python joins two adjacent string literals into one.
\<close>

definition init_columns :: "string list" where
  "init_columns =
     [''Company'', ''Role'', ''Package(LPA)'',
      ''Eligibility_CGPA'', ''Backlogs_Allowed'' @
      ''Eligibility_10th'', ''Eligibility_12th'']"

definition init_csv :: "files \<Rightarrow> files" where
  "init_csv fs =
     (if fs CSV_FILE = None
      then fs(CSV_FILE \<mapsto> \<lparr>columns = init_columns, rows = []\<rparr>)
      else fs)"

definition load_data :: "csv_reader \<Rightarrow> files \<Rightarrow> error + dataframe" where
  "load_data reader fs =
     (case fs CSV_FILE of
        None \<Rightarrow> Inl FileNotFoundError
      | Some df \<Rightarrow> Inr (read_csv reader df))"

definition save_data :: "files \<Rightarrow> dataframe \<Rightarrow> files" where
  "save_data fs df = fs(CSV_FILE \<mapsto> df)"

text \<open>The seven column labels every other branch of \<^verbatim>\<open>main\<close> works with, in the
  order of the dictionary \<^verbatim>\<open>new_entry\<close>.\<close>

definition canonical_columns :: "string list" where
  "canonical_columns =
     [''Company'', ''Role'', ''Package(LPA)'',
      ''Eligibility_CGPA'', ''Backlogs_Allowed'',
      ''Eligibility_10th'', ''Eligibility_12th'']"

subsection \<open>View Companies: the search box\<close>

text \<open>
  A column read from the CSV file is a text column (dtype \<^verbatim>\<open>object\<close>) when one of its
  cells is a text, and also when the frame has no rows; a column of numbers and missing
  values only is a numeric column. The \<^verbatim>\<open>.str\<close> accessor and \<^verbatim>\<open>column + " - "\<close> exist
  for text columns only.
\<close>

definition object_dtype :: "cell list \<Rightarrow> bool" where
  "object_dtype cs \<longleftrightarrow> cs = [] \<or> list_ex is_text cs"

text \<open>
  \<^verbatim>\<open>str.contains(search_term, case=False, na=False)\<close> is called without
  \<^verbatim>\<open>regex=False\<close>, so pandas compiles the term as a regular expression with the
  flag IGNORECASE and searches every text with it. The characters below are the ones with a
  meaning of their own in a pattern; every other character stands for itself.
\<close>

definition special_chars :: "char list" where
  "special_chars =
     [CHR ''.'', CHR ''^'', CHR ''$'', CHR ''*'', CHR ''+'', CHR ''?'', CHR ''{'', CHR ''}'',
      CHR ''['', CHR '']'', CHR 0x5C, CHR ''|'', CHR ''('', CHR '')'']"

definition literal_char :: "char \<Rightarrow> bool" where
  "literal_char c \<longleftrightarrow> c \<notin> set special_chars"

text \<open>
  A text of the model is a list of 8-bit characters. The first 128 of them are the ASCII
  characters, and a text made of these only is the Python text with the same characters. Any
  other character of a Python text takes characters with the top bit set, whose meaning
  depends on an encoding that the model does not follow.
\<close>

definition ascii_char :: "char \<Rightarrow> bool" where
  "ascii_char c \<longleftrightarrow> \<not> digit7 c"

definition ascii :: "string \<Rightarrow> bool" where
  "ascii s \<longleftrightarrow> list_all ascii_char s"

text \<open>
  What IGNORECASE does to an ASCII character matched against an ASCII pattern character: the
  letters \<^verbatim>\<open>A\<close> to \<^verbatim>\<open>Z\<close> are the same as \<^verbatim>\<open>a\<close> to \<^verbatim>\<open>z\<close>. Letters outside ASCII have
  case foldings of their own (and a few of them fold to an ASCII letter); the model never
  applies \<open>ascii_lower\<close> to a text that has one.
\<close>

definition ascii_lower :: "char \<Rightarrow> char" where
  "ascii_lower c =
     (case map_of (zip ''ABCDEFGHIJKLMNOPQRSTUVWXYZ'' ''abcdefghijklmnopqrstuvwxyz'') c of
        None \<Rightarrow> c
      | Some l \<Rightarrow> l)"

text \<open>
  The model runs the ASCII patterns that are made of literal characters and of the dot, which
  matches every character but the line feed, on ASCII texts. \<open>found_in pat s\<close> is
  \<^verbatim>\<open>re.search\<close> for such a pattern and such a text: the pattern matches at some position
  of \<open>s\<close>.
\<close>

definition plain_pattern :: "string \<Rightarrow> bool" where
  "plain_pattern pat \<longleftrightarrow> list_all (\<lambda>c. literal_char c \<or> c = CHR ''.'') pat"

definition char_matches :: "char \<Rightarrow> char \<Rightarrow> bool" where
  "char_matches p c \<longleftrightarrow> (if p = CHR ''.'' then c \<noteq> CHR 0x0A else ascii_lower p = ascii_lower c)"

fun matches_here :: "string \<Rightarrow> string \<Rightarrow> bool" where
  "matches_here [] s = True"
| "matches_here (p # ps) [] = False"
| "matches_here (p # ps) (c # cs) = (char_matches p c \<and> matches_here ps cs)"

fun found_in :: "string \<Rightarrow> string \<Rightarrow> bool" where
  "found_in pat [] = matches_here pat []"
| "found_in pat (c # cs) = (matches_here pat (c # cs) \<or> found_in pat cs)"

text \<open>
  Everything else is left to the regular-expression library, the parameter \<open>re\<close> of the
  model: \<open>rejects re pat\<close> says that the library refuses to compile the pattern
  (PatternError), and \<open>finds re pat s\<close> that the compiled pattern, with IGNORECASE, matches
  somewhere in the text \<open>s\<close>. The library is asked about every pattern that is not a plain
  ASCII pattern, and about every text that is not ASCII. A plain pattern always compiles.
\<close>

record regex_library =
  rejects :: "string \<Rightarrow> bool"
  finds :: "string \<Rightarrow> string \<Rightarrow> bool"

definition compile_pattern :: "regex_library \<Rightarrow> string \<Rightarrow> error + (string \<Rightarrow> bool)" where
  "compile_pattern re pat =
     (if plain_pattern pat \<and> ascii pat
      then Inr (\<lambda>s. if ascii s then found_in pat s else finds re pat s)
      else if plain_pattern pat then Inr (finds re pat)
      else if rejects re pat then Inl PatternError
      else Inr (finds re pat))"

text \<open>With \<^verbatim>\<open>na=False\<close>, a cell that is not a text is no match.\<close>

fun cell_contains :: "(string \<Rightarrow> bool) \<Rightarrow> cell \<Rightarrow> bool" where
  "cell_contains m (Str s) = m s"
| "cell_contains m c = False"

definition str_contains :: "regex_library \<Rightarrow> cell list \<Rightarrow> string \<Rightarrow> error + bool list" where
  "str_contains re cs pat =
     (if \<not> object_dtype cs then Inl AttributeError
      else and_then (compile_pattern re pat) (\<lambda>m. Inr (map (cell_contains m) cs)))"

text \<open>Lines 61 to 67. An empty \<^verbatim>\<open>search_term\<close> is falsy and the frame is not filtered.\<close>

definition search :: "regex_library \<Rightarrow> dataframe \<Rightarrow> string \<Rightarrow> error + dataframe" where
  "search re df search_term =
     (if search_term = [] then Inr df
      else
        and_then (getitem df ''Role'') (\<lambda>role.
        and_then (str_contains re role search_term) (\<lambda>m1.
        and_then (getitem df ''Company'') (\<lambda>company.
        and_then (str_contains re company search_term) (\<lambda>m2.
          Inr (select_rows df (series_or m1 m2)))))))"

subsection \<open>View Companies: the sort order\<close>

text \<open>
  \<^verbatim>\<open>sort_values(by="Package(LPA)", ascending=...)\<close> is called with pandas' defaults:
  \<^verbatim>\<open>na_position='last'\<close>, so the rows with a missing key come last, in their original
  order, whichever the direction; and \<^verbatim>\<open>kind='quicksort'\<close>, a sorting routine that pandas
  documents as not stable. Where two keys are equal the program therefore does not fix which
  row comes first, and the model does not either: \<open>sort_values df label ascending res\<close> says
  that \<open>res\<close> is a result the call may give. Numbers are ordered as numbers, texts as Python
  orders them (by code point), and a number cannot be ordered against a text (TypeError).
\<close>

fun key_le :: "cell \<Rightarrow> cell \<Rightarrow> bool" where
  "key_le (Num a) (Num b) = (a \<le> b)"
| "key_le (Str s) (Str t) = (s \<le> t)"
| "key_le a b = False"

definition in_order :: "bool \<Rightarrow> cell list \<Rightarrow> bool" where
  "in_order ascending ks \<longleftrightarrow>
     (if ascending then sorted_wrt key_le ks else sorted_wrt (\<lambda>a b. key_le b a) ks)"

definition sort_values :: "dataframe \<Rightarrow> string \<Rightarrow> bool \<Rightarrow> error + dataframe \<Rightarrow> bool" where
  "sort_values df label ascending res =
     (case index_of label (columns df) of
        None \<Rightarrow> res = Inl KeyError
      | Some i \<Rightarrow>
          (let present = filter (\<lambda>r. r ! i \<noteq> NaN) (rows df);
               missing = filter (\<lambda>r. r ! i = NaN) (rows df);
               keys = map (\<lambda>r. r ! i) present
           in if \<not> (list_all is_number keys \<or> list_all is_text keys) then res = Inl TypeError
              else (case res of
                      Inl e \<Rightarrow> False
                    | Inr df' \<Rightarrow>
                        columns df' = columns df \<and>
                        mset (take (length present) (rows df')) = mset present \<and>
                        in_order ascending (map (\<lambda>r. r ! i) (take (length present) (rows df'))) \<and>
                        drop (length present) (rows df') = missing)))"

text \<open>Lines 70 to 74: the radio button and the two branches that sort.\<close>

datatype sort_order = NoSort | HighestToLowest | LowestToHighest

definition sort_by_package :: "dataframe \<Rightarrow> sort_order \<Rightarrow> error + dataframe \<Rightarrow> bool" where
  "sort_by_package df order res =
     (if order = HighestToLowest then sort_values df ''Package(LPA)'' False res
      else if order = LowestToHighest then sort_values df ''Package(LPA)'' True res
      else res = Inr df)"

subsection \<open>Add Company\<close>

text \<open>The seven values of the form, under the names \<^verbatim>\<open>main\<close> gives them.\<close>

record entry =
  company :: string
  role :: string
  package :: real
  cgpa :: real
  backlogs :: int
  perc_10th :: real
  perc_12th :: real

text \<open>\<^verbatim>\<open>pd.DataFrame([new_entry])\<close>: one row, the keys of the dictionary as columns.\<close>

definition new_entry :: "entry \<Rightarrow> dataframe" where
  "new_entry e =
     \<lparr>columns = [''Company'', ''Role'', ''Package(LPA)'', ''Eligibility_CGPA'',
                 ''Backlogs_Allowed'', ''Eligibility_10th'', ''Eligibility_12th''],
      rows = [[Str (company e), Str (role e), Num (package e), Num (cgpa e),
               Num (of_int (backlogs e)), Num (perc_10th e), Num (perc_12th e)]]\<rparr>"

text \<open>
  \<^verbatim>\<open>pd.concat([a, b], ignore_index=True)\<close>: the columns of \<open>a\<close>, then the columns of
  \<open>b\<close> that \<open>a\<close> does not have; the rows of \<open>a\<close>, then the rows of \<open>b\<close>, every row laid
  out under the new columns with a missing value where its frame had no such column.
\<close>

definition reindex :: "string list \<Rightarrow> string list \<Rightarrow> cell list \<Rightarrow> cell list" where
  "reindex old new r = map (\<lambda>c. case index_of c old of None \<Rightarrow> NaN | Some i \<Rightarrow> r ! i) new"

definition pd_concat :: "dataframe \<Rightarrow> dataframe \<Rightarrow> dataframe" where
  "pd_concat a b =
     (let cs = columns a @ filter (\<lambda>c. c \<notin> set (columns a)) (columns b)
      in \<lparr>columns = cs,
          rows = map (reindex (columns a) cs) (rows a) @ map (reindex (columns b) cs) (rows b)\<rparr>)"

text \<open>Lines 94 to 105, the form submitted.\<close>

definition add_company :: "files \<Rightarrow> dataframe \<Rightarrow> entry \<Rightarrow> files" where
  "add_company fs df e = save_data fs (pd_concat df (new_entry e))"

subsection \<open>Check Eligibility\<close>

text \<open>The four numbers the user enters; the number of backlogs is an integer input.\<close>

record profile =
  user_cgpa :: real
  user_backlogs :: int
  user_10th :: real
  user_12th :: real

text \<open>
  Lines 119 to 124. Python evaluates the operands of \<^verbatim>\<open>&\<close> from left to right, so the
  first column that is absent or holds a text decides which error is raised.
\<close>

definition filter_eligible :: "dataframe \<Rightarrow> profile \<Rightarrow> error + dataframe" where
  "filter_eligible df p =
     and_then (getitem df ''Eligibility_CGPA'') (\<lambda>c1.
     and_then (series_le c1 (user_cgpa p)) (\<lambda>m1.
     and_then (getitem df ''Backlogs_Allowed'') (\<lambda>c2.
     and_then (series_ge c2 (of_int (user_backlogs p))) (\<lambda>m2.
     and_then (getitem df ''Eligibility_10th'') (\<lambda>c3.
     and_then (series_le c3 (user_10th p)) (\<lambda>m3.
     and_then (getitem df ''Eligibility_12th'') (\<lambda>c4.
     and_then (series_le c4 (user_12th p)) (\<lambda>m4.
       Inr (select_rows df (series_and (series_and (series_and m1 m2) m3) m4))))))))))"

text \<open>\<^verbatim>\<open>df[[c1, c2, ...]]\<close>: the listed columns in the listed order, KeyError when one is
  absent.\<close>

definition getitems :: "dataframe \<Rightarrow> string list \<Rightarrow> error + dataframe" where
  "getitems df cs =
     and_then
       (collect
          (map (\<lambda>c. case index_of c (columns df) of None \<Rightarrow> Inl KeyError | Some i \<Rightarrow> Inr i) cs))
       (\<lambda>ixs. Inr \<lparr>columns = cs, rows = map (\<lambda>r. map (\<lambda>i. r ! i) ixs) (rows df)\<rparr>)"

definition EXPORT_FILE :: string where
  "EXPORT_FILE = ''eligible_companies.csv''"

text \<open>
  What the branch shows: the error message, or the table on the screen together with the
  content of the download button, \<^verbatim>\<open>eligible.to_csv(index=False)\<close>.
\<close>

datatype eligibility_view = NoCompanies | Eligible dataframe dataframe

text \<open>Lines 118 to 131, the button pressed.\<close>

definition check_eligibility ::
  "files \<Rightarrow> dataframe \<Rightarrow> profile \<Rightarrow> error + files \<times> eligibility_view" where
  "check_eligibility fs df p =
     and_then (filter_eligible df p) (\<lambda>eligible.
       if empty_df eligible then Inr (fs, NoCompanies)
       else
         and_then (getitems eligible [''Company'', ''Role'', ''Package(LPA)'']) (\<lambda>shown.
           Inr (fs(EXPORT_FILE \<mapsto> eligible), Eligible shown eligible)))"

subsection \<open>Remove Company\<close>

text \<open>
  \<^verbatim>\<open>column + " - "\<close> on a text column: a text is extended, a missing value stays missing.
  On a numeric column pandas raises TypeError.
\<close>

fun cell_add_text :: "cell \<Rightarrow> string \<Rightarrow> error + cell" where
  "cell_add_text (Str a) s = Inr (Str (a @ s))"
| "cell_add_text NaN s = Inr NaN"
| "cell_add_text (Num v) s = Inl TypeError"

definition add_text :: "cell list \<Rightarrow> string \<Rightarrow> error + cell list" where
  "add_text cs s =
     (if \<not> object_dtype cs then Inl TypeError
      else collect (map (\<lambda>c. cell_add_text c s) cs))"

text \<open>
  \<^verbatim>\<open>left + right\<close>, cell by cell: missing where either cell is missing, the two texts
  joined, and TypeError for a text and a number.
\<close>

fun cell_add :: "cell \<Rightarrow> cell \<Rightarrow> error + cell" where
  "cell_add NaN y = Inr NaN"
| "cell_add x NaN = Inr NaN"
| "cell_add (Str a) (Str b) = Inr (Str (a @ b))"
| "cell_add (Num a) (Num b) = Inr (Num (a + b))"
| "cell_add (Str a) (Num b) = Inl TypeError"
| "cell_add (Num a) (Str b) = Inl TypeError"

definition add_series :: "cell list \<Rightarrow> cell list \<Rightarrow> error + cell list" where
  "add_series xs ys = collect (map (\<lambda>(x, y). cell_add x y) (zip xs ys))"

text \<open>\<^verbatim>\<open>df[c] = values\<close>: a new last column, or new values for the column \<open>c\<close> the frame
  already has.\<close>

definition setitem :: "dataframe \<Rightarrow> string \<Rightarrow> cell list \<Rightarrow> dataframe" where
  "setitem df c vs =
     (case index_of c (columns df) of
        None \<Rightarrow> \<lparr>columns = columns df @ [c], rows = map (\<lambda>(r, v). r @ [v]) (zip (rows df) vs)\<rparr>
      | Some i \<Rightarrow> df\<lparr>rows := map (\<lambda>(r, v). r[i := v]) (zip (rows df) vs)\<rparr>)"

text \<open>\<^verbatim>\<open>series != y\<close>: True wherever one of the two is missing.\<close>

fun cell_ne :: "cell \<Rightarrow> cell \<Rightarrow> bool" where
  "cell_ne (Str a) (Str b) = (a \<noteq> b)"
| "cell_ne (Num a) (Num b) = (a \<noteq> b)"
| "cell_ne x y = True"

definition series_ne :: "cell list \<Rightarrow> cell \<Rightarrow> bool list" where
  "series_ne cs y = map (\<lambda>c. cell_ne c y) cs"

text \<open>\<^verbatim>\<open>df.drop(columns=[c])\<close>.\<close>

definition drop_column :: "dataframe \<Rightarrow> string \<Rightarrow> error + dataframe" where
  "drop_column df c =
     (case index_of c (columns df) of
        None \<Rightarrow> Inl KeyError
      | Some i \<Rightarrow>
          Inr \<lparr>columns = take i (columns df) @ drop (Suc i) (columns df),
               rows = map (\<lambda>r. take i r @ drop (Suc i) r) (rows df)\<rparr>)"

text \<open>Line 184: the label column, computed whenever the branch is shown for a frame with
  rows.\<close>

definition with_labels :: "dataframe \<Rightarrow> error + dataframe" where
  "with_labels df =
     and_then (getitem df ''Company'') (\<lambda>company.
     and_then (add_text company '' - '') (\<lambda>left.
     and_then (getitem df ''Role'') (\<lambda>role.
     and_then (add_series left role) (\<lambda>labels.
       Inr (setitem df ''Company_Role'' labels)))))"

text \<open>Lines 189 to 192, the button pressed; \<open>selected_entry\<close> is the entry of the select
  box.\<close>

definition delete_company :: "files \<Rightarrow> dataframe \<Rightarrow> cell \<Rightarrow> error + files" where
  "delete_company fs df selected_entry =
     and_then (getitem df ''Company_Role'') (\<lambda>labels.
     and_then (drop_column (select_rows df (series_ne labels selected_entry)) ''Company_Role'')
       (\<lambda>df'. Inr (save_data fs df')))"

definition remove_company :: "files \<Rightarrow> dataframe \<Rightarrow> cell \<Rightarrow> error + files" where
  "remove_company fs df selected_entry =
     (if empty_df df then Inr fs
      else and_then (with_labels df) (\<lambda>df. delete_company fs df selected_entry))"

section \<open>The vocabulary of the statements\<close>

text \<open>
  The definitions of this section are not code of the program. They say, in the words of the
  specification, what the theorems compare the program with.
\<close>

subsection \<open>Rows and columns\<close>

text \<open>
  The cell of row \<open>r\<close> under the label \<open>c\<close> of frame \<open>df\<close>. A frame read from a CSV file
  has one cell per column in every row, and no label twice.
\<close>

definition field :: "dataframe \<Rightarrow> string \<Rightarrow> cell list \<Rightarrow> cell" where
  "field df c r = (case index_of c (columns df) of None \<Rightarrow> NaN | Some i \<Rightarrow> r ! i)"

definition rectangular :: "dataframe \<Rightarrow> bool" where
  "rectangular df \<longleftrightarrow> list_all (\<lambda>r. length r = length (columns df)) (rows df)"

text \<open>A column that is present and holds numbers or missing values only; one that holds
  texts or missing values only; one that pandas reads as a text column.\<close>

definition numeric_column :: "dataframe \<Rightarrow> string \<Rightarrow> bool" where
  "numeric_column df c \<longleftrightarrow>
     index_of c (columns df) \<noteq> None \<and> list_all (\<lambda>r. \<not> is_text (field df c r)) (rows df)"

definition text_or_missing :: "dataframe \<Rightarrow> string \<Rightarrow> bool" where
  "text_or_missing df c \<longleftrightarrow>
     index_of c (columns df) \<noteq> None \<and> list_all (\<lambda>r. \<not> is_number (field df c r)) (rows df)"

definition text_column :: "dataframe \<Rightarrow> string \<Rightarrow> bool" where
  "text_column df c \<longleftrightarrow>
     index_of c (columns df) \<noteq> None \<and> object_dtype (map (field df c) (rows df))"

subsection \<open>Eligibility\<close>

text \<open>\<^verbatim>\<open>threshold <= value\<close> and \<^verbatim>\<open>threshold >= value\<close> read on a cell: a missing
  threshold satisfies neither.\<close>

fun num_le :: "cell \<Rightarrow> real \<Rightarrow> bool" where
  "num_le (Num v) x = (v \<le> x)"
| "num_le c x = False"

fun num_ge :: "cell \<Rightarrow> real \<Rightarrow> bool" where
  "num_ge (Num v) x = (v \<ge> x)"
| "num_ge c x = False"

text \<open>The four inequalities of the specification, on one row.\<close>

definition meets :: "dataframe \<Rightarrow> profile \<Rightarrow> cell list \<Rightarrow> bool" where
  "meets df p r \<longleftrightarrow>
     num_le (field df ''Eligibility_CGPA'' r) (user_cgpa p) \<and>
     num_ge (field df ''Backlogs_Allowed'' r) (of_int (user_backlogs p)) \<and>
     num_le (field df ''Eligibility_10th'' r) (user_10th p) \<and>
     num_le (field df ''Eligibility_12th'' r) (user_12th p)"

definition thresholds_numeric :: "dataframe \<Rightarrow> bool" where
  "thresholds_numeric df \<longleftrightarrow>
     numeric_column df ''Eligibility_CGPA'' \<and> numeric_column df ''Backlogs_Allowed'' \<and>
     numeric_column df ''Eligibility_10th'' \<and> numeric_column df ''Eligibility_12th''"

text \<open>The table shown on the screen: Company, Role and Package of every row.\<close>

definition three_columns :: "dataframe \<Rightarrow> dataframe" where
  "three_columns df =
     \<lparr>columns = [''Company'', ''Role'', ''Package(LPA)''],
      rows = map (\<lambda>r. [field df ''Company'' r, field df ''Role'' r, field df ''Package(LPA)'' r])
               (rows df)\<rparr>"

subsection \<open>Search\<close>






subsection \<open>Sorting\<close>

text \<open>The Package cell of a row, and the number in a cell that holds one.\<close>

definition package_of :: "dataframe \<Rightarrow> cell list \<Rightarrow> cell" where
  "package_of df r = field df ''Package(LPA)'' r"

definition the_num :: "cell \<Rightarrow> real" where
  "the_num c = (case c of Num v \<Rightarrow> v | _ \<Rightarrow> 0)"

text \<open>
  What a stable sorting routine returns for rows with numeric keys in column \<open>i\<close>; for the
  descending direction pandas reverses the rows, sorts ascending and reverses the result.
\<close>

definition stable_sorted :: "nat \<Rightarrow> bool \<Rightarrow> cell list list \<Rightarrow> cell list list" where
  "stable_sorted i ascending rs =
     (if ascending then sort_key (\<lambda>r. the_num (r ! i)) rs
      else rev (sort_key (\<lambda>r. the_num (r ! i)) (rev rs)))"

subsection \<open>Addition\<close>

text \<open>
  The dataset with a record appended. The value a record has under a column label, the
  columns the dataset lacks for it, and the table made of the rows of the dataset, each
  extended by an empty cell under every column that was lacking, followed by the record as
  the last row. For a dataset with the seven canonical columns this is the rows of the
  dataset followed by the record.
\<close>

definition entry_cell :: "entry \<Rightarrow> string \<Rightarrow> cell" where
  "entry_cell e c =
     (if c = ''Company'' then Str (company e)
      else if c = ''Role'' then Str (role e)
      else if c = ''Package(LPA)'' then Num (package e)
      else if c = ''Eligibility_CGPA'' then Num (cgpa e)
      else if c = ''Backlogs_Allowed'' then Num (of_int (backlogs e))
      else if c = ''Eligibility_10th'' then Num (perc_10th e)
      else if c = ''Eligibility_12th'' then Num (perc_12th e)
      else NaN)"

definition lacking :: "dataframe \<Rightarrow> string list" where
  "lacking df = filter (\<lambda>c. c \<notin> set (columns df)) canonical_columns"

definition appended :: "dataframe \<Rightarrow> entry \<Rightarrow> dataframe" where
  "appended df e =
     \<lparr>columns = columns df @ lacking df,
      rows = map (\<lambda>r. r @ replicate (length (lacking df)) NaN) (rows df) @
             [map (entry_cell e) (columns df @ lacking df)]\<rparr>"

subsection \<open>Removal\<close>

text \<open>The composite label of a row, \<^verbatim>\<open>Company - Role\<close>; a row with a missing Company or
  Role has none.\<close>

definition composite_label :: "dataframe \<Rightarrow> cell list \<Rightarrow> cell" where
  "composite_label df r =
     (case (field df ''Company'' r, field df ''Role'' r) of
        (Str a, Str b) \<Rightarrow> Str (a @ '' - '' @ b)
      | _ \<Rightarrow> NaN)"

section \<open>Example data\<close>

text \<open>The scenario of the specification: one offer, and a candidate who meets it.\<close>

definition acme_row :: "cell list" where
  "acme_row = [Str ''Acme'', Str ''Engineer'', Num 10, Num 7.5, Num 1, Num 60, Num 60]"

definition acme_df :: dataframe where
  "acme_df = \<lparr>columns = canonical_columns, rows = [acme_row]\<rparr>"

definition acme_profile :: profile where
  "acme_profile = \<lparr>user_cgpa = 8, user_backlogs = 0, user_10th = 70, user_12th = 70\<rparr>"

text \<open>A second offer whose CGPA threshold was left empty in the file.\<close>

definition beta_row :: "cell list" where
  "beta_row = [Str ''Beta'', Str ''Analyst'', Num 6, NaN, Num 2, Num 50, Num 50]"

definition acme_beta_df :: dataframe where
  "acme_beta_df = \<lparr>columns = canonical_columns, rows = [acme_row, beta_row]\<rparr>"

text \<open>A third offer whose company name was left empty in the file.\<close>

definition gamma_row :: "cell list" where
  "gamma_row = [NaN, Str ''Test Engineer'', Num 4, Num 6, Num 0, Num 55, Num 55]"

definition search_df :: dataframe where
  "search_df = \<lparr>columns = canonical_columns, rows = [acme_row, beta_row, gamma_row]\<rparr>"

definition gamma_df :: dataframe where
  "gamma_df = \<lparr>columns = canonical_columns, rows = [gamma_row]\<rparr>"

text \<open>Two offers with the same package, and an offer whose package was left empty.\<close>

definition delta_row :: "cell list" where
  "delta_row = [Str ''Delta'', Str ''Developer'', Num 10, Num 7, Num 0, Num 60, Num 60]"

definition tie_df :: dataframe where
  "tie_df = \<lparr>columns = canonical_columns, rows = [acme_row, delta_row]\<rparr>"

definition epsilon_row :: "cell list" where
  "epsilon_row = [Str ''Epsilon'', Str ''Intern'', NaN, Num 6, Num 0, Num 50, Num 50]"

definition gap_df :: dataframe where
  "gap_df = \<lparr>columns = canonical_columns, rows = [epsilon_row, acme_row]\<rparr>"

text \<open>Acme listed twice, and a new offer to add.\<close>

definition dup_df :: dataframe where
  "dup_df = \<lparr>columns = canonical_columns, rows = [acme_row, beta_row, acme_row]\<rparr>"

definition zeta_entry :: entry where
  "zeta_entry = \<lparr>company = ''Zeta'', role = ''Tester'', package = 5, cgpa = 6.5, backlogs = 2,
     perc_10th = 55, perc_12th = 58\<rparr>"

text \<open>The form submitted with the company name left empty.\<close>

definition blank_entry :: entry where
  "blank_entry = \<lparr>company = [], role = ''Tester'', package = 5, cgpa = 6.5, backlogs = 2,
     perc_10th = 55, perc_12th = 58\<rparr>"

text \<open>A regular-expression library that rejects every pattern it is asked to compile and
  finds nothing; the examples below search ASCII texts for plain ASCII patterns, which never
  reach the library.\<close>

definition no_regex :: regex_library where
  "no_regex = \<lparr>rejects = \<lambda>pat. True, finds = \<lambda>pat s. False\<rparr>"

section \<open>Properties\<close>

subsection \<open>Element-wise operations, row by row\<close>

lemma and_then_Inr: "and_then m f = Inr y \<longleftrightarrow> (\<exists>v. m = Inr v \<and> f v = Inr y)"
  by (cases m) (simp_all add: and_then_def)

lemma and_then_Inr_simp [simp]: "and_then (Inr v) f = f v"
  by (simp add: and_then_def)

lemma and_then_Inl_simp [simp]: "and_then (Inl e) f = Inl e"
  by (simp add: and_then_def)

lemma collect_Inr_D: "collect xs = Inr bs \<Longrightarrow> xs = map Inr bs"
  by (induction xs arbitrary: bs) (auto split: sum.splits)

lemma collect_map_Inr: "collect (map Inr bs) = Inr bs"
  by (induction bs) auto

lemma collect_Inr_iff: "collect xs = Inr bs \<longleftrightarrow> xs = map Inr bs"
  using collect_Inr_D collect_map_Inr by blast

lemma getitem_field:
  "getitem df c = Inr cs \<longleftrightarrow> index_of c (columns df) \<noteq> None \<and> cs = map (field df c) (rows df)"
  by (auto simp: getitem_def field_def split: option.splits)

lemma cell_le_Inr: "cell_le c x = Inr b \<longleftrightarrow> \<not> is_text c \<and> b = num_le c x"
  by (cases c) auto

lemma cell_ge_Inr: "cell_ge c x = Inr b \<longleftrightarrow> \<not> is_text c \<and> b = num_ge c x"
  by (cases c) auto

lemma series_le_Inr:
  "series_le cs x = Inr bs \<longleftrightarrow> list_all (\<lambda>c. \<not> is_text c) cs \<and> bs = map (\<lambda>c. num_le c x) cs"
  unfolding series_le_def collect_Inr_iff
  by (induction cs arbitrary: bs) (auto simp: cell_le_Inr map_eq_Cons_conv Cons_eq_map_conv)

lemma series_ge_Inr:
  "series_ge cs x = Inr bs \<longleftrightarrow> list_all (\<lambda>c. \<not> is_text c) cs \<and> bs = map (\<lambda>c. num_ge c x) cs"
  unfolding series_ge_def collect_Inr_iff
  by (induction cs arbitrary: bs) (auto simp: cell_ge_Inr map_eq_Cons_conv Cons_eq_map_conv)

lemma series_and_map: "series_and (map f xs) (map g xs) = map (\<lambda>x. f x \<and> g x) xs"
  by (induction xs) (auto simp: series_and_def)

lemma series_or_map: "series_or (map f xs) (map g xs) = map (\<lambda>x. f x \<or> g x) xs"
  by (induction xs) (auto simp: series_or_def)

lemma select_rows_map: "select_rows df (map P (rows df)) = df\<lparr>rows := filter P (rows df)\<rparr>"
proof -
  have "map fst (filter snd (zip xs (map P xs))) = filter P xs" for xs :: "cell list list"
    by (induction xs) auto
  then show ?thesis by (simp add: select_rows_def)
qed

lemma numeric_column_getitem:
  "numeric_column df c \<longleftrightarrow> (\<exists>cs. getitem df c = Inr cs \<and> list_all (\<lambda>c. \<not> is_text c) cs)"
  by (auto simp: numeric_column_def getitem_field list_all_iff)

subsection \<open>Check Eligibility: which rows are kept\<close>

text \<open>
  \<^verbatim>\<open>filter_eligible\<close> returns a frame exactly when the four threshold columns are present
  and hold no text, and the frame it returns keeps the rows that meet the four inequalities.
\<close>

lemma filter_eligible_Inr:
  "filter_eligible df p = Inr df' \<longleftrightarrow>
     thresholds_numeric df \<and> df' = df\<lparr>rows := filter (meets df p) (rows df)\<rparr>"
  unfolding filter_eligible_def thresholds_numeric_def numeric_column_getitem
  by (auto simp add: and_then_Inr series_le_Inr series_ge_Inr getitem_field series_and_map
      select_rows_map meets_def [abs_def])

lemma acme_thresholds_numeric: "thresholds_numeric acme_df"
  by (simp add: thresholds_numeric_def numeric_column_def field_def acme_df_def acme_row_def
      canonical_columns_def)

lemma acme_beta_thresholds_numeric: "thresholds_numeric acme_beta_df"
  by (simp add: thresholds_numeric_def numeric_column_def field_def acme_beta_df_def acme_row_def
      beta_row_def canonical_columns_def)

lemma acme_meets: "meets acme_beta_df acme_profile acme_row"
  by (simp add: meets_def field_def acme_beta_df_def acme_row_def acme_profile_def
      canonical_columns_def)

lemma beta_meets_not: "\<not> meets acme_beta_df acme_profile beta_row"
  by (simp add: meets_def field_def acme_beta_df_def beta_row_def acme_profile_def
      canonical_columns_def)

text \<open>
  C1. On a frame whose four threshold columns are present and numeric (a number or a missing
  value in every cell), \<^verbatim>\<open>filter_eligible\<close> returns a frame with the same columns, and a
  row is in it if and only if it is a row of the input and all four inequalities hold:
  \<open>Eligibility_CGPA \<le> CGPA\<close>, \<open>Backlogs_Allowed \<ge> backlogs\<close>, \<open>Eligibility_10th \<le> 10th\<close>
  and \<open>Eligibility_12th \<le> 12th\<close>, each inclusive.
\<close>

theorem filter_eligible_iff:
  assumes "thresholds_numeric df"
  shows "\<exists>df'. filter_eligible df p = Inr df' \<and> columns df' = columns df \<and>
           (\<forall>r. r \<in> set (rows df') \<longleftrightarrow> r \<in> set (rows df) \<and> meets df p r)"
proof -
  have "filter_eligible df p = Inr (df\<lparr>rows := filter (meets df p) (rows df)\<rparr>)"
    using assms by (simp add: filter_eligible_Inr)
  then show ?thesis by auto
qed

theorem filter_eligible_iff_witness:
  "thresholds_numeric acme_beta_df \<and>
   (\<exists>df'. filter_eligible acme_beta_df acme_profile = Inr df' \<and>
      columns df' = columns acme_beta_df \<and>
      acme_row \<in> set (rows df') \<and> beta_row \<notin> set (rows df'))"
  using filter_eligible_iff [OF acme_beta_thresholds_numeric, of acme_profile]
    acme_beta_thresholds_numeric acme_meets beta_meets_not
  by (auto simp: acme_beta_df_def)

text \<open>The two scenarios of the specification, evaluated.\<close>

lemma scenario_eligible: "filter_eligible acme_df acme_profile = Inr acme_df"
  by (simp add: filter_eligible_Inr acme_thresholds_numeric)
     (simp add: acme_df_def meets_def field_def acme_row_def acme_profile_def
      canonical_columns_def)

lemma scenario_not_eligible:
  "filter_eligible acme_df (acme_profile\<lparr>user_cgpa := 7\<rparr>) = Inr (acme_df\<lparr>rows := []\<rparr>)"
  by (simp add: filter_eligible_Inr acme_thresholds_numeric)
     (simp add: acme_df_def meets_def field_def acme_row_def acme_profile_def
      canonical_columns_def)

text \<open>
  C10. On a frame whose four threshold columns are present and numeric, a missing threshold
  raises nothing, and a row with a missing \<open>Eligibility_CGPA\<close>, \<open>Backlogs_Allowed\<close>,
  \<open>Eligibility_10th\<close> or \<open>Eligibility_12th\<close> is not in the result, whatever the profile.
\<close>

theorem missing_threshold_excluded:
  assumes "thresholds_numeric df"
  shows "\<exists>df'. filter_eligible df p = Inr df' \<and>
           (\<forall>r. field df ''Eligibility_CGPA'' r = NaN \<or> field df ''Backlogs_Allowed'' r = NaN \<or>
                field df ''Eligibility_10th'' r = NaN \<or> field df ''Eligibility_12th'' r = NaN
                \<longrightarrow> r \<notin> set (rows df'))"
proof -
  have "filter_eligible df p = Inr (df\<lparr>rows := filter (meets df p) (rows df)\<rparr>)"
    using assms by (simp add: filter_eligible_Inr)
  moreover have "\<not> meets df p r"
    if "field df ''Eligibility_CGPA'' r = NaN \<or> field df ''Backlogs_Allowed'' r = NaN \<or>
        field df ''Eligibility_10th'' r = NaN \<or> field df ''Eligibility_12th'' r = NaN" for r
    using that by (auto simp: meets_def)
  ultimately show ?thesis by auto
qed

theorem missing_threshold_excluded_witness:
  "thresholds_numeric acme_beta_df \<and>
   field acme_beta_df ''Eligibility_CGPA'' beta_row = NaN \<and>
   (\<exists>df'. filter_eligible acme_beta_df \<lparr>user_cgpa = 10, user_backlogs = 0, user_10th = 100,
        user_12th = 100\<rparr> = Inr df' \<and> beta_row \<notin> set (rows df'))"
proof -
  have missing: "field acme_beta_df ''Eligibility_CGPA'' beta_row = NaN"
    by (simp add: field_def acme_beta_df_def beta_row_def canonical_columns_def)
  show ?thesis
    using missing_threshold_excluded [OF acme_beta_thresholds_numeric,
        of "\<lparr>user_cgpa = 10, user_backlogs = 0, user_10th = 100, user_12th = 100\<rparr>"]
      acme_beta_thresholds_numeric missing
    by blast
qed

subsection \<open>View Companies: what the search keeps\<close>









text \<open>Whatever the term and the library, a search that returns a frame returns the input
  with some of its rows filtered out.\<close>

lemma search_Inr_filter:
  assumes "search re df t = Inr df'"
  shows "\<exists>P. df' = df\<lparr>rows := filter P (rows df)\<rparr>"
proof (cases "t = []")
  case True
  then have "df' = df" using assms by (simp add: search_def)
  then have "df' = df\<lparr>rows := filter (\<lambda>r. True) (rows df)\<rparr>" by simp
  then show ?thesis by blast
next
  case False
  then obtain role m1 company m2 where
    role: "getitem df ''Role'' = Inr role" and m1: "str_contains re role t = Inr m1" and
    company: "getitem df ''Company'' = Inr company" and m2: "str_contains re company t = Inr m2"
    and df': "df' = select_rows df (series_or m1 m2)"
    using assms by (auto simp: search_def and_then_Inr)
  from m1 m2 obtain m where
    m: "m1 = map (cell_contains m) role" "m2 = map (cell_contains m) company"
    by (auto simp: str_contains_def and_then_Inr split: if_splits)
  have "series_or m1 m2 =
      map (\<lambda>r. cell_contains m (field df ''Role'' r) \<or> cell_contains m (field df ''Company'' r))
        (rows df)"
    using role company m by (simp add: getitem_field series_or_map comp_def)
  then show ?thesis using df' by (auto simp: select_rows_map)
qed

lemmas search_eval =
  search_def getitem_def canonical_columns_def acme_row_def beta_row_def gamma_row_def
  str_contains_def object_dtype_def compile_pattern_def plain_pattern_def literal_char_def
  special_chars_def series_or_def select_rows_def char_matches_def ascii_lower_def
  ascii_def ascii_char_def

lemma search_df_eng:
  "search no_regex search_df ''eng'' =
     Inr \<lparr>columns = canonical_columns, rows = [acme_row, gamma_row]\<rparr>"
  by (simp add: search_eval search_df_def)







text \<open>
  Why the theorem asks for text columns: in a frame whose only row has no Company, the
  Company column is read as a numeric column, it has no \<^verbatim>\<open>.str\<close> accessor, and the
  search raises AttributeError.
\<close>

lemma search_without_company_text:
  "field gamma_df ''Company'' gamma_row = NaN \<and>
   search no_regex gamma_df ''eng'' = Inl AttributeError"
proof -
  have "field gamma_df ''Company'' gamma_row = NaN"
    by (simp add: field_def gamma_df_def gamma_row_def canonical_columns_def)
  moreover have "search no_regex gamma_df ''eng'' = Inl AttributeError"
    by (simp add: search_eval gamma_df_def)
  ultimately show ?thesis by simp
qed

text \<open>
  C9. A frame returned by the search, or by the eligibility filter, has the columns of the
  input, and its rows are a subsequence of the input's rows: rows of the input, unmodified,
  in their original relative order.
\<close>

theorem results_are_subsequences:
  "(search re df t = Inr df1 \<longrightarrow> columns df1 = columns df \<and> subseq (rows df1) (rows df)) \<and>
   (filter_eligible df p = Inr df2 \<longrightarrow> columns df2 = columns df \<and> subseq (rows df2) (rows df))"
proof (intro conjI impI)
  assume "search re df t = Inr df1"
  then obtain P where "df1 = df\<lparr>rows := filter P (rows df)\<rparr>"
    using search_Inr_filter by blast
  then show "columns df1 = columns df" "subseq (rows df1) (rows df)" by simp_all
next
  assume "filter_eligible df p = Inr df2"
  then have "df2 = df\<lparr>rows := filter (meets df p) (rows df)\<rparr>"
    by (simp add: filter_eligible_Inr)
  then show "columns df2 = columns df" "subseq (rows df2) (rows df)" by simp_all
qed

theorem results_are_subsequences_witness:
  "search no_regex search_df ''eng'' =
     Inr \<lparr>columns = canonical_columns, rows = [acme_row, gamma_row]\<rparr> \<and>
   filter_eligible search_df acme_profile =
     Inr \<lparr>columns = canonical_columns, rows = [acme_row, gamma_row]\<rparr> \<and>
   columns search_df = canonical_columns \<and>
   subseq [acme_row, gamma_row] (rows search_df)"
proof -
  let ?out = "\<lparr>columns = canonical_columns, rows = [acme_row, gamma_row]\<rparr>"
  have numeric: "thresholds_numeric search_df"
    by (simp add: thresholds_numeric_def numeric_column_def field_def search_df_def acme_row_def
        beta_row_def gamma_row_def canonical_columns_def)
  have "filter (meets search_df acme_profile) (rows search_df) = [acme_row, gamma_row]"
    by (simp add: meets_def field_def search_df_def acme_row_def beta_row_def gamma_row_def
        acme_profile_def canonical_columns_def)
  then have eligible: "filter_eligible search_df acme_profile = Inr ?out"
    using numeric by (simp add: filter_eligible_Inr) (simp add: search_df_def)
  show ?thesis
    using results_are_subsequences [of no_regex search_df "''eng''" ?out acme_profile ?out]
      search_df_eng eligible
    by (simp add: search_df_def)
qed

subsection \<open>View Companies: what the sort returns\<close>

lemma field_index: "index_of c (columns df) = Some i \<Longrightarrow> field df c r = r ! i"
  by (simp add: field_def)

lemma is_number_iff: "is_number c \<longleftrightarrow> \<not> is_text c \<and> c \<noteq> NaN"
  by (cases c) auto

lemma key_le_num: "is_number a \<Longrightarrow> is_number b \<Longrightarrow> key_le a b \<longleftrightarrow> the_num a \<le> the_num b"
  by (cases a; cases b) (simp_all add: the_num_def)

lemma the_num_inj: "is_number a \<Longrightarrow> is_number b \<Longrightarrow> the_num a = the_num b \<Longrightarrow> a = b"
  by (cases a; cases b) (simp_all add: the_num_def)

lemma sorted_wrt_key_le_num:
  "list_all is_number ks \<Longrightarrow> sorted_wrt key_le ks \<longleftrightarrow> sorted (map the_num ks)"
  by (induction ks) (auto simp: key_le_num list_all_iff)

lemma sorted_wrt_key_ge_num:
  "list_all is_number ks \<Longrightarrow>
   sorted_wrt (\<lambda>a b. key_le b a) ks \<longleftrightarrow> sorted (rev (map the_num ks))"
  by (induction ks) (auto simp: key_le_num list_all_iff sorted_append)

lemma in_order_num:
  "list_all is_number ks \<Longrightarrow>
   in_order asc ks \<longleftrightarrow> (if asc then sorted (map the_num ks) else sorted (rev (map the_num ks)))"
  by (simp add: in_order_def sorted_wrt_key_le_num sorted_wrt_key_ge_num)

lemma stable_sorted_mset: "mset (stable_sorted i asc rs) = mset rs"
  by (simp add: stable_sorted_def)

text \<open>It keeps the rows of equal key in their original order, in both directions.\<close>

lemma stable_sorted_stable:
  "filter (\<lambda>r. the_num (r ! i) = k) (stable_sorted i asc rs) =
   filter (\<lambda>r. the_num (r ! i) = k) rs"
proof (cases asc)
  case True
  then show ?thesis by (simp add: stable_sorted_def sort_key_stable)
next
  case False
  have "filter (\<lambda>r. the_num (r ! i) = k) (rev (sort_key (\<lambda>r. the_num (r ! i)) (rev rs))) =
      rev (filter (\<lambda>r. the_num (r ! i) = k) (sort_key (\<lambda>r. the_num (r ! i)) (rev rs)))"
    by (simp add: rev_filter)
  also have "\<dots> = rev (filter (\<lambda>r. the_num (r ! i) = k) (rev rs))"
    by (simp only: sort_key_stable)
  also have "\<dots> = filter (\<lambda>r. the_num (r ! i) = k) rs"
    by (simp add: rev_filter)
  finally show ?thesis using False by (simp add: stable_sorted_def)
qed

lemma stable_sorted_length: "length (stable_sorted i asc rs) = length rs"
  by (metis stable_sorted_mset size_mset)

lemma stable_sorted_in_order:
  assumes "list_all is_number (map (\<lambda>r. r ! i) rs)"
  shows "in_order asc (map (\<lambda>r. r ! i) (stable_sorted i asc rs))"
proof -
  have "set (stable_sorted i asc rs) = set rs"
    by (metis stable_sorted_mset set_mset_mset)
  then have "list_all is_number (map (\<lambda>r. r ! i) (stable_sorted i asc rs))"
    using assms by (simp add: list_all_iff)
  then show ?thesis
    by (simp add: in_order_num) (simp add: stable_sorted_def rev_map o_def)
qed

text \<open>The call returns: on a numeric key column, the stably sorted frame is one of the
  results \<^verbatim>\<open>sort_values\<close> may give.\<close>

lemma sort_values_exists:
  assumes "index_of label (columns df) = Some i"
    and "list_all (\<lambda>r. \<not> is_text (r ! i)) (rows df)"
  shows "sort_values df label asc
           (Inr (df\<lparr>rows := stable_sorted i asc (filter (\<lambda>r. r ! i \<noteq> NaN) (rows df)) @
                            filter (\<lambda>r. r ! i = NaN) (rows df)\<rparr>))"
proof -
  let ?present = "filter (\<lambda>r. r ! i \<noteq> NaN) (rows df)"
  have num: "list_all is_number (map (\<lambda>r. r ! i) ?present)"
    using assms(2) by (auto simp: list_all_iff is_number_iff)
  show ?thesis
    using assms(1) num stable_sorted_in_order [OF num, of asc]
    by (simp add: sort_values_def Let_def stable_sorted_length stable_sorted_mset)
qed

lemma mset_take_drop: "mset (take n xs) + mset (drop n xs) = mset xs"
  by (metis append_take_drop_id mset_append)

text \<open>Every result on a numeric key column is a frame: the same rows, those with a key in
  order at the front, those without a key behind them as they were.\<close>

lemma sort_values_Inr:
  assumes "index_of label (columns df) = Some i"
    and "list_all (\<lambda>r. \<not> is_text (r ! i)) (rows df)"
    and "sort_values df label asc res"
  shows "\<exists>df' front. res = Inr df' \<and> columns df' = columns df \<and>
           mset (rows df') = mset (rows df) \<and>
           rows df' = front @ filter (\<lambda>r. r ! i = NaN) (rows df) \<and>
           mset front = mset (filter (\<lambda>r. r ! i \<noteq> NaN) (rows df)) \<and>
           in_order asc (map (\<lambda>r. r ! i) front)"
proof -
  let ?present = "filter (\<lambda>r. r ! i \<noteq> NaN) (rows df)"
  let ?missing = "filter (\<lambda>r. r ! i = NaN) (rows df)"
  have num: "list_all is_number (map (\<lambda>r. r ! i) ?present)"
    using assms(2) by (auto simp: list_all_iff is_number_iff)
  from assms(1,3) num obtain df' where res: "res = Inr df'"
    and cols: "columns df' = columns df"
    and front: "mset (take (length ?present) (rows df')) = mset ?present"
    and ord: "in_order asc (map (\<lambda>r. r ! i) (take (length ?present) (rows df')))"
    and rest: "drop (length ?present) (rows df') = ?missing"
    by (cases res) (auto simp: sort_values_def Let_def)
  have split: "rows df' = take (length ?present) (rows df') @ ?missing"
    using rest by (metis append_take_drop_id)
  have "mset ?present + mset ?missing = mset (rows df)"
    by (induction "rows df") auto
  then have "mset (rows df') = mset (rows df)"
    using front rest mset_take_drop [of "length ?present" "rows df'"] by simp
  then show ?thesis using res cols front ord split by blast
qed

lemma sorted_permutation_unique:
  fixes f :: "'a \<Rightarrow> real"
  assumes "mset xs = mset ys" and "sorted (map f xs)" and "sorted (map f ys)"
    and "distinct (map f xs)"
  shows "xs = ys"
proof -
  have "mset (map f xs) = mset (map f ys)" using assms(1) by simp
  then have dy: "distinct (map f ys)" using assms(4) by (metis mset_eq_imp_distinct_iff)
  have sets: "set xs = set ys" using assms(1) by (metis set_mset_mset)
  have "inj_on f (set xs \<union> set ys)" using assms(4) sets by (simp add: distinct_map)
  then show ?thesis
    using map_sorted_distinct_set_unique [of f xs ys] assms(2,3,4) dy sets by blast
qed

lemma sort_values_all_present:
  assumes idx: "index_of label (columns df) = Some i"
    and num: "list_all (\<lambda>r. is_number (r ! i)) (rows df)"
    and out: "sort_values df label asc (Inr df')"
  shows "mset (rows df') = mset (rows df) \<and>
         (if asc then sorted (map (\<lambda>r. the_num (r ! i)) (rows df'))
          else sorted (map (\<lambda>r. the_num (r ! i)) (rev (rows df'))))"
proof -
  have nt: "list_all (\<lambda>r. \<not> is_text (r ! i)) (rows df)"
    using num by (auto simp: list_all_iff is_number_iff)
  have none: "filter (\<lambda>r. r ! i = NaN) (rows df) = []"
    using num by (auto simp: list_all_iff filter_empty_conv is_number_iff)
  from sort_values_Inr [OF idx nt out] obtain front where
    m: "mset (rows df') = mset (rows df)"
    and r: "rows df' = front @ filter (\<lambda>r. r ! i = NaN) (rows df)"
    and o: "in_order asc (map (\<lambda>r. r ! i) front)"
    by blast
  have front: "front = rows df'" using r none by simp
  have "set (rows df') = set (rows df)" using m by (metis set_mset_mset)
  then have "list_all is_number (map (\<lambda>r. r ! i) (rows df'))"
    using num by (simp add: list_all_iff)
  then have "if asc then sorted (map the_num (map (\<lambda>r. r ! i) (rows df')))
      else sorted (rev (map the_num (map (\<lambda>r. r ! i) (rows df'))))"
    using o front by (simp add: in_order_num)
  then show ?thesis
    using m by (auto simp: rev_map o_def split: if_splits)
qed

lemma rev_descending_eq_ascending:
  assumes idx: "index_of label (columns df) = Some i"
    and num: "list_all (\<lambda>r. is_number (r ! i)) (rows df)"
    and dist: "distinct (map (\<lambda>r. r ! i) (rows df))"
    and d: "sort_values df label False (Inr d)"
    and a: "sort_values df label True (Inr a)"
  shows "rev (rows d) = rows a"
proof -
  let ?f = "\<lambda>r. the_num (r ! i)"
  from sort_values_all_present [OF idx num d]
  have md: "mset (rows d) = mset (rows df)" and sd: "sorted (map ?f (rev (rows d)))" by simp_all
  from sort_values_all_present [OF idx num a]
  have ma: "mset (rows a) = mset (rows df)" and sa: "sorted (map ?f (rows a))" by simp_all
  have "x = y" if "x \<in> set (rows df)" "y \<in> set (rows df)" "?f x = ?f y" for x y
  proof -
    have "x ! i = y ! i" using that num the_num_inj by (simp add: list_all_iff)
    then show ?thesis using dist that(1,2) by (simp add: distinct_map inj_on_def)
  qed
  then have "inj_on ?f (set (rows df))" by (simp add: inj_on_def)
  then have "distinct (map ?f (rows df))" using dist by (simp add: distinct_map)
  then have "distinct (map ?f (rev (rows d)))"
    using md by (metis mset_eq_imp_distinct_iff mset_map mset_rev)
  moreover have "mset (rev (rows d)) = mset (rows a)" using md ma by simp
  ultimately show ?thesis using sd sa sorted_permutation_unique by blast
qed

lemma package_index:
  "index_of ''Package(LPA)'' (columns df) = Some i \<Longrightarrow> package_of df = (\<lambda>r. r ! i)"
  by (auto simp: package_of_def field_def)

lemma sort_by_package_NoSort: "sort_by_package df NoSort res \<longleftrightarrow> res = Inr df"
  by (simp add: sort_by_package_def)

lemma sort_by_package_sorts:
  "order \<noteq> NoSort \<Longrightarrow>
   sort_by_package df order res = sort_values df ''Package(LPA)'' (order = LowestToHighest) res"
  by (cases order) (simp_all add: sort_by_package_def)

text \<open>
  What the sort order gives, whatever the sorting routine does with equal keys. With the
  order None the frame is returned as it is. With the order Lowest to Highest or Highest to
  Lowest, on a frame whose Package column is present and numeric, the call returns a frame,
  and every frame it may return has the columns and the rows of the input (as a multiset):
  first the rows with a Package, in non-decreasing or non-increasing order of Package, then
  the rows without a Package in their original order.
\<close>

lemma sort_by_package_results:
  assumes "numeric_column df ''Package(LPA)''"
  shows "(sort_by_package df NoSort res \<longleftrightarrow> res = Inr df) \<and>
         (\<exists>df'. sort_by_package df LowestToHighest (Inr df')) \<and>
         (\<exists>df'. sort_by_package df HighestToLowest (Inr df')) \<and>
         (order \<noteq> NoSort \<and> sort_by_package df order res \<longrightarrow>
            (\<exists>df' front. res = Inr df' \<and> columns df' = columns df \<and>
               mset (rows df') = mset (rows df) \<and>
               rows df' = front @ filter (\<lambda>r. package_of df r = NaN) (rows df) \<and>
               mset front = mset (filter (\<lambda>r. package_of df r \<noteq> NaN) (rows df)) \<and>
               in_order (order = LowestToHighest) (map (package_of df) front)))"
proof -
  from assms obtain i where idx: "index_of ''Package(LPA)'' (columns df) = Some i"
    by (auto simp: numeric_column_def)
  have pk: "package_of df = (\<lambda>r. r ! i)" using idx by (rule package_index)
  have nt: "list_all (\<lambda>r. \<not> is_text (r ! i)) (rows df)"
    using assms idx by (simp add: numeric_column_def field_def)
  have up: "\<exists>df'. sort_by_package df LowestToHighest (Inr df')"
    using sort_values_exists [OF idx nt, of True] by (auto simp: sort_by_package_def)
  have down: "\<exists>df'. sort_by_package df HighestToLowest (Inr df')"
    using sort_values_exists [OF idx nt, of False] by (auto simp: sort_by_package_def)
  have any: "\<exists>df' front. res = Inr df' \<and> columns df' = columns df \<and>
               mset (rows df') = mset (rows df) \<and>
               rows df' = front @ filter (\<lambda>r. package_of df r = NaN) (rows df) \<and>
               mset front = mset (filter (\<lambda>r. package_of df r \<noteq> NaN) (rows df)) \<and>
               in_order (order = LowestToHighest) (map (package_of df) front)"
    if "order \<noteq> NoSort" "sort_by_package df order res"
    using sort_values_Inr [OF idx nt, of "order = LowestToHighest" res] that
    by (simp add: sort_by_package_sorts pk)
  show ?thesis using up down any by (simp add: sort_by_package_NoSort)
qed

lemmas sort_eval =
  sort_by_package_def sort_values_def in_order_def canonical_columns_def
  acme_row_def beta_row_def delta_row_def epsilon_row_def

text \<open>
  C4 says more: that rows with equal Package keep their original relative order. That is a
  property of the sorting routine \<^verbatim>\<open>sort_values\<close> calls, which is not part of the
  program, and the relation above leaves it open. Acme and Delta both offer 10: the frame
  with Acme before Delta and the frame with Delta before Acme both satisfy the relation, in
  either direction, so nothing proved from it tells which of the two the program shows.
\<close>

lemma tie_order_left_open:
  "rows tie_df = [acme_row, delta_row] \<and>
   package_of tie_df acme_row = Num 10 \<and> package_of tie_df delta_row = Num 10 \<and>
   sort_by_package tie_df LowestToHighest (Inr tie_df) \<and>
   sort_by_package tie_df HighestToLowest (Inr tie_df) \<and>
   sort_by_package tie_df LowestToHighest (Inr (tie_df\<lparr>rows := [delta_row, acme_row]\<rparr>)) \<and>
   sort_by_package tie_df HighestToLowest (Inr (tie_df\<lparr>rows := [delta_row, acme_row]\<rparr>))"
  by (simp add: sort_eval tie_df_def package_of_def field_def)

text \<open>
  C8, as the code has it. On a frame whose Package column is present, in which every row has
  a number as Package and no two rows have the same Package, both sorts return a frame, and
  the rows of the descending result, reversed, are the rows of the ascending result.
\<close>

theorem reverse_descending_is_ascending:
  assumes "index_of ''Package(LPA)'' (columns df) \<noteq> None"
    and "list_all (\<lambda>r. is_number (package_of df r)) (rows df)"
    and "distinct (map (package_of df) (rows df))"
  shows "(\<exists>d a. sort_by_package df HighestToLowest (Inr d) \<and>
                sort_by_package df LowestToHighest (Inr a)) \<and>
         (\<forall>d a. sort_by_package df HighestToLowest (Inr d) \<and>
                sort_by_package df LowestToHighest (Inr a) \<longrightarrow> rev (rows d) = rows a)"
proof -
  from assms(1) obtain i where idx: "index_of ''Package(LPA)'' (columns df) = Some i" by auto
  have pk: "package_of df = (\<lambda>r. r ! i)" using idx by (rule package_index)
  have num: "list_all (\<lambda>r. is_number (r ! i)) (rows df)" using assms(2) by (simp add: pk)
  have dist: "distinct (map (\<lambda>r. r ! i) (rows df))" using assms(3) by (simp add: pk)
  have nt: "list_all (\<lambda>r. \<not> is_text (r ! i)) (rows df)"
    using num by (auto simp: list_all_iff is_number_iff)
  have "\<exists>d. sort_by_package df HighestToLowest (Inr d)"
    using sort_values_exists [OF idx nt, of False] by (auto simp: sort_by_package_def)
  moreover have "\<exists>a. sort_by_package df LowestToHighest (Inr a)"
    using sort_values_exists [OF idx nt, of True] by (auto simp: sort_by_package_def)
  moreover have "rev (rows d) = rows a"
    if "sort_by_package df HighestToLowest (Inr d)" "sort_by_package df LowestToHighest (Inr a)"
    for d a
    using rev_descending_eq_ascending [OF idx num dist, of d a] that
    by (simp add: sort_by_package_def)
  ultimately show ?thesis by blast
qed

theorem reverse_descending_is_ascending_witness:
  "index_of ''Package(LPA)'' (columns acme_beta_df) \<noteq> None \<and>
   list_all (\<lambda>r. is_number (package_of acme_beta_df r)) (rows acme_beta_df) \<and>
   distinct (map (package_of acme_beta_df) (rows acme_beta_df)) \<and>
   sort_by_package acme_beta_df HighestToLowest (Inr acme_beta_df) \<and>
   sort_by_package acme_beta_df LowestToHighest
     (Inr (acme_beta_df\<lparr>rows := [beta_row, acme_row]\<rparr>)) \<and>
   rev (rows acme_beta_df) = [beta_row, acme_row]"
proof -
  have h1: "index_of ''Package(LPA)'' (columns acme_beta_df) \<noteq> None"
    by (simp add: acme_beta_df_def canonical_columns_def)
  have h2: "list_all (\<lambda>r. is_number (package_of acme_beta_df r)) (rows acme_beta_df)"
    by (simp add: package_of_def field_def acme_beta_df_def canonical_columns_def acme_row_def
        beta_row_def)
  have h3: "distinct (map (package_of acme_beta_df) (rows acme_beta_df))"
    by (simp add: package_of_def field_def acme_beta_df_def canonical_columns_def acme_row_def
        beta_row_def)
  have d: "sort_by_package acme_beta_df HighestToLowest (Inr acme_beta_df)"
    by (simp add: sort_eval acme_beta_df_def)
  have a: "sort_by_package acme_beta_df LowestToHighest
     (Inr (acme_beta_df\<lparr>rows := [beta_row, acme_row]\<rparr>))"
    by (simp add: sort_eval acme_beta_df_def)
  show ?thesis
    using reverse_descending_is_ascending [OF h1 h2 h3] h1 h2 h3 d a
    by (simp add: acme_beta_df_def)
qed

text \<open>On the frame with Epsilon, which has no Package, and Acme, each sort has one result
  only.\<close>

lemma gap_df_sorted_rows:
  assumes "order \<noteq> NoSort" and "sort_by_package gap_df order res"
  shows "\<exists>df'. res = Inr df' \<and> rows df' = [acme_row, epsilon_row]"
proof -
  have idx: "index_of ''Package(LPA)'' (columns gap_df) = Some 2"
    by (simp add: gap_df_def canonical_columns_def)
  have nt: "list_all (\<lambda>r. \<not> is_text (r ! 2)) (rows gap_df)"
    by (simp add: gap_df_def epsilon_row_def acme_row_def)
  have missing: "filter (\<lambda>r. r ! 2 = NaN) (rows gap_df) = [epsilon_row]"
    and present: "filter (\<lambda>r. r ! 2 \<noteq> NaN) (rows gap_df) = [acme_row]"
    by (simp_all add: gap_df_def epsilon_row_def acme_row_def)
  from assms have "sort_values gap_df ''Package(LPA)'' (order = LowestToHighest) res"
    by (simp add: sort_by_package_sorts)
  from sort_values_Inr [OF idx nt this] obtain df' front where
    "res = Inr df'" "rows df' = front @ [epsilon_row]" "mset front = mset [acme_row]"
    unfolding missing present by blast
  then show ?thesis by auto
qed

text \<open>
  Where C8 fails as stated: Epsilon has no Package and Acme offers 10, so no two rows share a
  Package; the row without a Package is last in both directions, and the descending result
  reversed has it first.
\<close>

theorem missing_package_counterexample:
  "rows gap_df = [epsilon_row, acme_row] \<and>
   package_of gap_df epsilon_row = NaN \<and> package_of gap_df acme_row = Num 10 \<and>
   distinct (map (package_of gap_df) (rows gap_df)) \<and>
   sort_by_package gap_df HighestToLowest (Inr (gap_df\<lparr>rows := [acme_row, epsilon_row]\<rparr>)) \<and>
   sort_by_package gap_df LowestToHighest (Inr (gap_df\<lparr>rows := [acme_row, epsilon_row]\<rparr>)) \<and>
   rev (rows (gap_df\<lparr>rows := [acme_row, epsilon_row]\<rparr>)) \<noteq>
     rows (gap_df\<lparr>rows := [acme_row, epsilon_row]\<rparr>)"
  by (simp add: sort_eval gap_df_def package_of_def field_def)

subsection \<open>Check Eligibility: what is exported\<close>

lemma getitems_three:
  assumes "index_of ''Company'' (columns df) \<noteq> None" "index_of ''Role'' (columns df) \<noteq> None"
    "index_of ''Package(LPA)'' (columns df) \<noteq> None"
  shows "getitems df [''Company'', ''Role'', ''Package(LPA)''] = Inr (three_columns df)"
  using assms by (auto simp: getitems_def three_columns_def field_def)


text \<open>
  C3, as the code has it. On a frame whose four threshold columns are numeric and which has
  the columns Company, Role and Package(LPA): when no row is eligible, no file is written and
  the error message is shown; otherwise \<^verbatim>\<open>eligible_companies.csv\<close> is overwritten with
  the eligible rows under all the columns of the dataset, the download has the same content,
  and only the table on the screen is cut down to Company, Role and Package(LPA).
\<close>

theorem check_eligibility_export:
  assumes "thresholds_numeric df"
    and "index_of ''Company'' (columns df) \<noteq> None"
    and "index_of ''Role'' (columns df) \<noteq> None"
    and "index_of ''Package(LPA)'' (columns df) \<noteq> None"
  shows "check_eligibility fs df p =
           (let eligible = df\<lparr>rows := filter (meets df p) (rows df)\<rparr>
            in if rows eligible = [] then Inr (fs, NoCompanies)
               else Inr (fs(EXPORT_FILE \<mapsto> eligible),
                         Eligible (three_columns eligible) eligible))"
proof -
  let ?eligible = "df\<lparr>rows := filter (meets df p) (rows df)\<rparr>"
  have el: "filter_eligible df p = Inr ?eligible"
    using assms(1) by (simp add: filter_eligible_Inr)
  have "columns df \<noteq> []" using assms(2) by auto
  then have emp: "empty_df ?eligible \<longleftrightarrow> rows ?eligible = []"
    by (simp add: empty_df_def)
  have shown: "getitems ?eligible [''Company'', ''Role'', ''Package(LPA)''] =
      Inr (three_columns ?eligible)"
    using assms(2,3,4) by (intro getitems_three) simp_all
  show ?thesis
    unfolding check_eligibility_def el Let_def and_then_Inr_simp emp shown by simp
qed

lemma acme_three_columns:
  "three_columns acme_df =
     \<lparr>columns = [''Company'', ''Role'', ''Package(LPA)''],
      rows = [[Str ''Acme'', Str ''Engineer'', Num 10]]\<rparr>"
  by (simp add: three_columns_def field_def acme_df_def acme_row_def canonical_columns_def)

lemma acme_meets_alone: "filter (meets acme_df acme_profile) (rows acme_df) = [acme_row]"
  by (simp add: meets_def field_def acme_df_def acme_row_def acme_profile_def
      canonical_columns_def)

lemma acme_has_display_columns:
  "index_of ''Company'' (columns acme_df) \<noteq> None"
  "index_of ''Role'' (columns acme_df) \<noteq> None"
  "index_of ''Package(LPA)'' (columns acme_df) \<noteq> None"
  by (simp_all add: acme_df_def canonical_columns_def)

lemma check_eligibility_acme:
  "check_eligibility fs acme_df acme_profile =
     Inr (fs(EXPORT_FILE \<mapsto> acme_df), Eligible (three_columns acme_df) acme_df)"
  by (simp add: check_eligibility_def scenario_eligible empty_df_def
      getitems_three acme_has_display_columns)
     (simp add: acme_df_def canonical_columns_def)

theorem check_eligibility_export_witness:
  "thresholds_numeric acme_df \<and>
   index_of ''Company'' (columns acme_df) \<noteq> None \<and>
   index_of ''Role'' (columns acme_df) \<noteq> None \<and>
   index_of ''Package(LPA)'' (columns acme_df) \<noteq> None \<and>
   check_eligibility Map.empty acme_df acme_profile =
     Inr (Map.empty(EXPORT_FILE \<mapsto> acme_df), Eligible (three_columns acme_df) acme_df) \<and>
   check_eligibility Map.empty acme_df (acme_profile\<lparr>user_cgpa := 7\<rparr>) =
     Inr (Map.empty, NoCompanies)"
proof -
  have none: "filter (meets acme_df (acme_profile\<lparr>user_cgpa := 7\<rparr>)) (rows acme_df) = []"
    by (simp add: meets_def field_def acme_df_def acme_row_def acme_profile_def
        canonical_columns_def)
  have same: "acme_df\<lparr>rows := [acme_row]\<rparr> = acme_df"
    by (simp add: acme_df_def)
  show ?thesis
    using check_eligibility_export [OF acme_thresholds_numeric acme_has_display_columns,
        of Map.empty acme_profile]
      check_eligibility_export [OF acme_thresholds_numeric acme_has_display_columns,
        of Map.empty "acme_profile\<lparr>user_cgpa := 7\<rparr>"]
      acme_thresholds_numeric acme_has_display_columns
    by (simp add: acme_meets_alone none same Let_def) (simp add: acme_df_def)
qed

text \<open>
  Where C3 fails as stated: for the Acme scenario the file written has the seven columns of
  the dataset, not the three columns of the table on the screen.
\<close>

theorem export_columns_counterexample:
  "check_eligibility Map.empty acme_df acme_profile =
     Inr (Map.empty(EXPORT_FILE \<mapsto> acme_df), Eligible (three_columns acme_df) acme_df) \<and>
   columns acme_df =
     [''Company'', ''Role'', ''Package(LPA)'', ''Eligibility_CGPA'', ''Backlogs_Allowed'',
      ''Eligibility_10th'', ''Eligibility_12th''] \<and>
   columns (three_columns acme_df) = [''Company'', ''Role'', ''Package(LPA)''] \<and>
   acme_df \<noteq> three_columns acme_df"
  by (simp add: check_eligibility_acme acme_three_columns)
     (simp add: acme_df_def canonical_columns_def)

subsection \<open>Add Company: what is stored\<close>

lemma index_of_nth: "distinct cs \<Longrightarrow> k < length cs \<Longrightarrow> index_of (cs ! k) cs = Some k"
proof (induction cs arbitrary: k)
  case Nil
  then show ?case by simp
next
  case (Cons c cs)
  then show ?case by (cases k) auto
qed

lemma index_of_None: "index_of c cs = None \<longleftrightarrow> c \<notin> set cs"
  by (induction cs) auto

lemma index_of_Some_less: "index_of c cs = Some i \<Longrightarrow> i < length cs"
  by (induction cs arbitrary: i) (auto split: if_splits)

lemma reindex_same:
  assumes "distinct cs" and "length r = length cs"
  shows "reindex cs cs r = r"
  using assms by (auto simp: reindex_def list_eq_iff_nth_eq index_of_nth)

lemma reindex_subset:
  assumes "set new \<subseteq> set old"
  shows "filter (\<lambda>c. c \<notin> set old) new = []"
  using assms by (auto simp: filter_empty_conv)

lemma pd_concat_same_columns:
  assumes "distinct (columns a)" and "rectangular a" and "set (columns b) \<subseteq> set (columns a)"
  shows "pd_concat a b =
           \<lparr>columns = columns a, rows = rows a @ map (reindex (columns b) (columns a)) (rows b)\<rparr>"
proof -
  have "map (reindex (columns a) (columns a)) (rows a) = rows a"
    using assms(1,2) by (simp add: rectangular_def list_all_iff reindex_same map_idI)
  then show ?thesis
    using assms(3) by (simp add: pd_concat_def reindex_subset Let_def)
qed


lemma canonical_distinct: "distinct canonical_columns"
  by (simp add: canonical_columns_def)

lemma new_entry_columns: "columns (new_entry e) = canonical_columns"
  by (simp add: new_entry_def canonical_columns_def)

text \<open>Laid out under the columns of the concatenation, a row of the dataset keeps its cells
  and gets an empty cell under every new column; the new record gets its seven values under
  their labels.\<close>

lemma reindex_old_row:
  assumes "distinct cs" and "length r = length cs" and "set extra \<inter> set cs = {}"
  shows "reindex cs (cs @ extra) r = r @ replicate (length extra) NaN"
proof -
  have "index_of c cs = None" if "c \<in> set extra" for c
    using that assms(3) by (auto simp: index_of_None)
  then have "map (\<lambda>c. case index_of c cs of None \<Rightarrow> NaN | Some i \<Rightarrow> r ! i) extra =
      map (\<lambda>c. NaN) extra"
    by (intro map_cong) simp_all
  then have "map (\<lambda>c. case index_of c cs of None \<Rightarrow> NaN | Some i \<Rightarrow> r ! i) extra =
      replicate (length extra) NaN"
    by (simp add: map_replicate_const)
  moreover have "map (\<lambda>c. case index_of c cs of None \<Rightarrow> NaN | Some i \<Rightarrow> r ! i) cs = r"
    using reindex_same [OF assms(1,2)] by (simp add: reindex_def)
  ultimately show ?thesis by (simp add: reindex_def)
qed

lemma reindex_new_entry:
  "r \<in> set (rows (new_entry e)) \<Longrightarrow> reindex canonical_columns cs r = map (entry_cell e) cs"
  by (simp add: reindex_def new_entry_def canonical_columns_def entry_cell_def)

lemma pd_concat_new_entry:
  assumes "distinct (columns df)" and "rectangular df"
  shows "pd_concat df (new_entry e) = appended df e"
proof -
  have disjoint: "set (lacking df) \<inter> set (columns df) = {}"
    by (auto simp: lacking_def)
  have "map (reindex (columns df) (columns df @ lacking df)) (rows df) =
      map (\<lambda>r. r @ replicate (length (lacking df)) NaN) (rows df)"
    using assms disjoint by (auto simp: rectangular_def list_all_iff reindex_old_row)
  moreover have "map (reindex canonical_columns (columns df @ lacking df)) (rows (new_entry e)) =
      [map (entry_cell e) (columns df @ lacking df)]"
    using reindex_new_entry [of _ e "columns df @ lacking df"] by (simp add: new_entry_def)
  ultimately show ?thesis
    by (simp add: pd_concat_def appended_def lacking_def new_entry_columns Let_def)
qed

lemma appended_canonical:
  "columns df = canonical_columns \<Longrightarrow>
     appended df e = \<lparr>columns = canonical_columns, rows = rows df @ rows (new_entry e)\<rparr>"
  by (simp add: appended_def lacking_def new_entry_def)
     (simp add: canonical_columns_def entry_cell_def)


lemma read_csv_no_rows: "rows df = [] \<Longrightarrow> read_csv reader df = df"
  by (simp add: read_csv_def)

lemma read_cell_missing:
  "v = NaN \<or> (\<exists>s. v = Str s \<and> s \<in> set na_values) \<Longrightarrow> read_cell reader df c v = NaN"
  by auto






text \<open>
  The first record added to a file that \<^verbatim>\<open>init_csv\<close> created: the frame gets the two
  columns the header lacks, and keeps the fused column, empty.
\<close>

lemma first_add_after_init:
  "load_data reader (init_csv Map.empty) = Inr \<lparr>columns = init_columns, rows = []\<rparr> \<and>
   add_company (init_csv Map.empty) \<lparr>columns = init_columns, rows = []\<rparr> zeta_entry CSV_FILE =
     Some \<lparr>columns = [''Company'', ''Role'', ''Package(LPA)'', ''Eligibility_CGPA'',
                      ''Backlogs_AllowedEligibility_10th'', ''Eligibility_12th'',
                      ''Backlogs_Allowed'', ''Eligibility_10th''],
           rows = [[Str ''Zeta'', Str ''Tester'', Num 5, Num 6.5, NaN, Num 58, Num 2, Num 55]]\<rparr>"
  by (simp add: load_data_def init_csv_def add_company_def save_data_def pd_concat_def
      new_entry_def init_columns_def reindex_def zeta_entry_def Let_def read_csv_def)

text \<open>Before that first record, Check Eligibility fails on the file \<^verbatim>\<open>init_csv\<close> created:
  there is no column \<^verbatim>\<open>Backlogs_Allowed\<close>.\<close>

lemma check_eligibility_after_init:
  "check_eligibility fs \<lparr>columns = init_columns, rows = []\<rparr> p = Inl KeyError"
  by (simp add: check_eligibility_def filter_eligible_def getitem_def init_columns_def
      series_le_def)

text \<open>
  A dataset whose only record was added with the company name left empty: after loading, the
  Company column holds no text, and the search box raises AttributeError.
\<close>

lemma search_after_blank_add:
  "\<exists>df'. load_data reader
            (add_company Map.empty \<lparr>columns = canonical_columns, rows = []\<rparr> blank_entry) =
          Inr df' \<and>
     search re df' ''test'' = Inl AttributeError"
proof -
  let ?written = "\<lparr>columns = canonical_columns,
      rows = [[Str [], Str ''Tester'', Num 5, Num 6.5, Num 2, Num 55, Num 58]]\<rparr>"
  have "add_company Map.empty \<lparr>columns = canonical_columns, rows = []\<rparr> blank_entry =
      Map.empty(CSV_FILE \<mapsto> ?written)"
    using pd_concat_new_entry [of "\<lparr>columns = canonical_columns, rows = []\<rparr>" blank_entry]
      appended_canonical [of "\<lparr>columns = canonical_columns, rows = []\<rparr>" blank_entry]
    by (simp add: add_company_def save_data_def rectangular_def canonical_distinct)
       (simp add: new_entry_def blank_entry_def)
  then have "load_data reader
      (add_company Map.empty \<lparr>columns = canonical_columns, rows = []\<rparr> blank_entry) =
      Inr (read_csv reader ?written)"
    by (simp add: load_data_def)
  moreover have "search re (read_csv reader ?written) ''test'' = Inl AttributeError"
    by (simp add: read_csv_def search_def getitem_def canonical_columns_def str_contains_def
        object_dtype_def compile_pattern_def plain_pattern_def literal_char_def
        special_chars_def ascii_def ascii_char_def na_values_def)
  ultimately show ?thesis by simp
qed

subsection \<open>Remove Company: what is persisted\<close>

lemma collect_map_total:
  assumes "\<And>x. x \<in> set xs \<Longrightarrow> f x = Inr (g x)"
  shows "collect (map f xs) = Inr (map g xs)"
  using assms by (induction xs) auto

lemma add_text_labels:
  assumes "object_dtype cs" and "list_all (\<lambda>c. \<not> is_number c) cs"
  shows "add_text cs s = Inr (map (\<lambda>c. case c of Str a \<Rightarrow> Str (a @ s) | _ \<Rightarrow> NaN) cs)"
proof -
  have "cell_add_text c s = Inr (case c of Str a \<Rightarrow> Str (a @ s) | _ \<Rightarrow> NaN)"
    if "\<not> is_number c" for c
    using that by (cases c) auto
  then show ?thesis
    using assms by (simp add: add_text_def list_all_iff collect_map_total)
qed

lemma labels_of_rows:
  assumes "text_or_missing df ''Company''" and "text_or_missing df ''Role''"
    and "text_column df ''Company''"
  shows "with_labels df = Inr (setitem df ''Company_Role'' (map (composite_label df) (rows df)))"
proof -
  let ?co = "map (field df ''Company'') (rows df)" and ?ro = "map (field df ''Role'') (rows df)"
  have co: "getitem df ''Company'' = Inr ?co" and ro: "getitem df ''Role'' = Inr ?ro"
    using assms(1,2) by (simp_all add: text_or_missing_def getitem_field)
  have left: "add_text ?co '' - '' =
      Inr (map (\<lambda>r. case field df ''Company'' r of Str a \<Rightarrow> Str (a @ '' - '') | _ \<Rightarrow> NaN) (rows df))"
    using assms(1,3)
    by (subst add_text_labels)
       (simp_all add: text_or_missing_def text_column_def list_all_iff comp_def)
  have "cell_add (case field df ''Company'' r of Str a \<Rightarrow> Str (a @ '' - '') | _ \<Rightarrow> NaN)
          (field df ''Role'' r) = Inr (composite_label df r)"
    if "r \<in> set (rows df)" for r
  proof -
    have "\<not> is_number (field df ''Company'' r)" "\<not> is_number (field df ''Role'' r)"
      using that assms(1,2) by (simp_all add: text_or_missing_def list_all_iff)
    then show ?thesis
      by (cases "field df ''Company'' r"; cases "field df ''Role'' r")
         (simp_all add: composite_label_def)
  qed
  then have "add_series
      (map (\<lambda>r. case field df ''Company'' r of Str a \<Rightarrow> Str (a @ '' - '') | _ \<Rightarrow> NaN)
         (rows df)) ?ro
      = Inr (map (composite_label df) (rows df))"
    by (simp add: add_series_def zip_map_map collect_map_total zip_same_conv_map)
  then show ?thesis by (simp add: with_labels_def co ro left)
qed


lemma index_of_append_new: "c \<notin> set cs \<Longrightarrow> index_of c (cs @ [c]) = Some (length cs)"
  by (induction cs) auto

lemma setitem_new_column:
  assumes "c \<notin> set (columns df)"
  shows "setitem df c (map f (rows df)) =
           \<lparr>columns = columns df @ [c], rows = map (\<lambda>r. r @ [f r]) (rows df)\<rparr>"
  using assms by (simp add: setitem_def index_of_None [THEN iffD2] zip_map2 zip_same_conv_map)

lemma composite_label_ne:
  "cell_ne (composite_label df r) (Str l) \<longleftrightarrow> composite_label df r \<noteq> Str l"
  by (cases "field df ''Company'' r"; cases "field df ''Role'' r")
     (simp_all add: composite_label_def)

lemma delete_company_labelled:
  assumes "c = ''Company_Role''" and "c \<notin> set (columns df)" and "rectangular df"
  shows "delete_company fs
           \<lparr>columns = columns df @ [c], rows = map (\<lambda>r. r @ [f r]) (rows df)\<rparr> sel =
         Inr (save_data fs (df\<lparr>rows := filter (\<lambda>r. cell_ne (f r) sel) (rows df)\<rparr>))"
proof -
  let ?n = "length (columns df)"
  let ?df1 = "\<lparr>columns = columns df @ [c], rows = map (\<lambda>r. r @ [f r]) (rows df)\<rparr>"
  have len: "length r = ?n" if "r \<in> set (rows df)" for r
    using that assms(3) by (simp add: rectangular_def list_all_iff)
  have last: "(r @ [v]) ! ?n = v" if "r \<in> set (rows df)" for r v
    using len [OF that] by (metis nth_append_length)
  have strip: "take ?n (r @ [v]) @ drop (Suc ?n) (r @ [v]) = r" if "r \<in> set (rows df)" for r v
    using len [OF that] by simp
  have idx: "index_of c (columns ?df1) = Some ?n"
    using assms(2) by (simp add: index_of_append_new)
  have labels: "getitem ?df1 c = Inr (map f (rows df))"
    using idx last by (simp add: getitem_def comp_def)
  have sel: "select_rows ?df1 (series_ne (map f (rows df)) sel) =
      ?df1\<lparr>rows := filter (\<lambda>r'. cell_ne (r' ! ?n) sel) (rows ?df1)\<rparr>"
  proof -
    have "series_ne (map f (rows df)) sel = map (\<lambda>r'. cell_ne (r' ! ?n) sel) (rows ?df1)"
      using last by (simp add: series_ne_def comp_def)
    then show ?thesis by (simp only: select_rows_map)
  qed
  have kept: "filter (\<lambda>r'. cell_ne (r' ! ?n) sel) (rows ?df1) =
      map (\<lambda>r. r @ [f r]) (filter (\<lambda>r. cell_ne (f r) sel) (rows df))"
    using last by (simp add: filter_map comp_def cong: filter_cong)
  have "drop_column
      (?df1\<lparr>rows := map (\<lambda>r. r @ [f r]) (filter (\<lambda>r. cell_ne (f r) sel) (rows df))\<rparr>) c =
      Inr (df\<lparr>rows := filter (\<lambda>r. cell_ne (f r) sel) (rows df)\<rparr>)"
  proof -
    have "map (\<lambda>r'. take ?n r' @ drop (Suc ?n) r') (map (\<lambda>r. r @ [f r]) xs) = xs"
      if "set xs \<subseteq> set (rows df)" for xs
      unfolding map_map comp_def
      by (rule map_idI) (rule strip, use that in blast)
    then have "map (\<lambda>r'. take ?n r' @ drop (Suc ?n) r')
        (map (\<lambda>r. r @ [f r]) (filter (\<lambda>r. cell_ne (f r) sel) (rows df))) =
        filter (\<lambda>r. cell_ne (f r) sel) (rows df)"
      by simp
    moreover have "take ?n (columns df @ [c]) = columns df" by simp
    ultimately show ?thesis
      using idx by (simp add: drop_column_def del: take_append drop_append map_map)
  qed
  then show ?thesis
    using assms(1) labels sel kept by (simp add: delete_company_def)
qed


text \<open>With a Company in some row, the Company column is a text column, the label column
  can be computed, and the frame written back is the dataset without the rows that carry the
  selected label.\<close>

lemma remove_company_persisted:
  assumes "rows df \<noteq> []"
    and "text_column df ''Company''" and "text_or_missing df ''Company''"
    and "text_or_missing df ''Role''"
    and "''Company_Role'' \<notin> set (columns df)" and "rectangular df"
  shows "remove_company fs df (Str l) =
           Inr (fs(CSV_FILE \<mapsto>
             df\<lparr>rows := filter (\<lambda>r. composite_label df r \<noteq> Str l) (rows df)\<rparr>))"
proof -
  have "columns df \<noteq> []" using assms(2) by (auto simp: text_column_def)
  then have ne: "\<not> empty_df df" using assms(1) by (simp add: empty_df_def)
  have "with_labels df =
      Inr \<lparr>columns = columns df @ [''Company_Role''],
           rows = map (\<lambda>r. r @ [composite_label df r]) (rows df)\<rparr>"
    using labels_of_rows [OF assms(3,4,2)] assms(5) by (simp add: setitem_new_column)
  then show ?thesis
    using ne delete_company_labelled [OF refl assms(5,6), of fs "composite_label df" "Str l"]
    by (simp add: remove_company_def save_data_def composite_label_ne)
qed


text \<open>
  C6. For a dataset whose Company and Role columns hold texts or missing values and which has
  no column named \<^verbatim>\<open>Company_Role\<close>, and a label \<open>l\<close> of the select box, that is, the
  composite label \<^verbatim>\<open>Company - Role\<close> of one of its rows: Remove persists the dataset
  without every row whose composite label is \<open>l\<close>. The rows kept are unchanged and in their
  order, and the persisted columns are the columns of the dataset, so no label column is
  stored.
\<close>

theorem remove_company_rows:
  assumes "Str l \<in> set (map (composite_label df) (rows df))"
    and "text_or_missing df ''Company''" and "text_or_missing df ''Role''"
    and "''Company_Role'' \<notin> set (columns df)" and "rectangular df"
  shows "remove_company fs df (Str l) =
           Inr (fs(CSV_FILE \<mapsto>
             df\<lparr>rows := filter (\<lambda>r. composite_label df r \<noteq> Str l) (rows df)\<rparr>))"
proof -
  from assms(1) obtain r where r: "r \<in> set (rows df)" and "composite_label df r = Str l"
    by auto
  then have "is_text (field df ''Company'' r)"
    by (cases "field df ''Company'' r") (simp_all add: composite_label_def)
  then have "list_ex is_text (map (field df ''Company'') (rows df))"
    using r by (auto simp: list_ex_iff)
  then have "text_column df ''Company''"
    using assms(2) by (simp add: text_column_def text_or_missing_def object_dtype_def)
  moreover have "rows df \<noteq> []" using r by auto
  ultimately show ?thesis
    using assms(2-) by (intro remove_company_persisted)
qed

lemma dup_df_labels:
  "composite_label dup_df acme_row = Str ''Acme - Engineer''"
  "composite_label dup_df beta_row = Str ''Beta - Analyst''"
  by (simp_all add: composite_label_def field_def dup_df_def canonical_columns_def acme_row_def
      beta_row_def)

theorem remove_company_rows_witness:
  "rows dup_df = [acme_row, beta_row, acme_row] \<and>
   Str ''Acme - Engineer'' \<in> set (map (composite_label dup_df) (rows dup_df)) \<and>
   text_or_missing dup_df ''Company'' \<and> text_or_missing dup_df ''Role'' \<and>
   ''Company_Role'' \<notin> set (columns dup_df) \<and> rectangular dup_df \<and>
   remove_company Map.empty dup_df (Str ''Acme - Engineer'') =
     Inr (Map.empty(CSV_FILE \<mapsto> \<lparr>columns = canonical_columns, rows = [beta_row]\<rparr>))"
proof -
  have rows: "rows dup_df = [acme_row, beta_row, acme_row]"
    by (simp add: dup_df_def)
  have h1: "Str ''Acme - Engineer'' \<in> set (map (composite_label dup_df) (rows dup_df))"
    by (simp add: rows dup_df_labels)
  have h2: "text_or_missing dup_df ''Company''" and h3: "text_or_missing dup_df ''Role''"
    by (simp_all add: text_or_missing_def field_def dup_df_def canonical_columns_def
        acme_row_def beta_row_def)
  have h4: "''Company_Role'' \<notin> set (columns dup_df)"
    by (simp add: dup_df_def canonical_columns_def)
  have h5: "rectangular dup_df"
    by (simp add: rectangular_def dup_df_def canonical_columns_def acme_row_def beta_row_def)
  have kept: "filter (\<lambda>r. composite_label dup_df r \<noteq> Str ''Acme - Engineer'') (rows dup_df) =
      [beta_row]"
    by (simp add: rows dup_df_labels)
  from remove_company_rows [OF h1 h2 h3 h4 h5, of Map.empty]
  have "remove_company Map.empty dup_df (Str ''Acme - Engineer'') =
      Inr (Map.empty(CSV_FILE \<mapsto> dup_df\<lparr>rows := [beta_row]\<rparr>))"
    by (simp only: kept)
  moreover have "dup_df\<lparr>rows := [beta_row]\<rparr> = \<lparr>columns = canonical_columns, rows = [beta_row]\<rparr>"
    by (simp add: dup_df_def)
  ultimately show ?thesis
    using rows h1 h2 h3 h4 h5 by simp
qed

text \<open>A row without a Company has no label, is offered in the select box as a missing
  value, and selecting that entry removes nothing.\<close>

lemma remove_missing_label:
  "with_labels search_df =
     Inr \<lparr>columns = canonical_columns @ [''Company_Role''],
          rows = [acme_row @ [Str ''Acme - Engineer''], beta_row @ [Str ''Beta - Analyst''],
                  gamma_row @ [NaN]]\<rparr> \<and>
   remove_company Map.empty search_df NaN = Inr (Map.empty(CSV_FILE \<mapsto> search_df))"
  by (simp add: remove_company_def with_labels_def delete_company_def empty_df_def getitem_def
      add_text_def object_dtype_def add_series_def setitem_def series_ne_def select_rows_def
      drop_column_def save_data_def search_df_def canonical_columns_def acme_row_def
      beta_row_def gamma_row_def)

subsection \<open>Initialisation\<close>

lemma init_csv_existing: "fs CSV_FILE = Some df \<Longrightarrow> init_csv fs = fs"
  by (simp add: init_csv_def)

lemma init_csv_idempotent: "init_csv (init_csv fs) = init_csv fs"
  by (simp add: init_csv_def)

lemma init_csv_then_load: "\<exists>df. load_data reader (init_csv fs) = Inr df"
  by (simp add: init_csv_def load_data_def split: option.splits)

text \<open>
  C2. With no \<^verbatim>\<open>placements.csv\<close> in the store, \<^verbatim>\<open>init_csv\<close> creates the file with zero
  rows, but its header has six labels, not the seven canonical ones: the fifth label is the
  fused text \<^verbatim>\<open>Backlogs_AllowedEligibility_10th\<close>, and neither \<^verbatim>\<open>Backlogs_Allowed\<close> nor
  \<^verbatim>\<open>Eligibility_10th\<close> is a column of the new file. A second call changes nothing.
\<close>

theorem init_csv_fresh_header:
  "init_csv Map.empty CSV_FILE =
     Some \<lparr>columns = [''Company'', ''Role'', ''Package(LPA)'', ''Eligibility_CGPA'',
                       ''Backlogs_AllowedEligibility_10th'', ''Eligibility_12th''],
           rows = []\<rparr>
   \<and> length init_columns = 6
   \<and> init_columns \<noteq> canonical_columns
   \<and> index_of ''Backlogs_Allowed'' init_columns = None
   \<and> index_of ''Eligibility_10th'' init_columns = None
   \<and> init_csv (init_csv Map.empty) = init_csv Map.empty"
  by (simp add: init_csv_def init_columns_def canonical_columns_def)

end
